theory Spec2Isabelle
  imports Complex_Main
begin

section \<open>The weather server: data model\<close>

text \<open>
  The program is one Go file, \<^verbatim>\<open>main.go\<close>. It registers two handlers, \<^verbatim>\<open>hello\<close>
  and an anonymous function for \<^verbatim>\<open>/weather/\<close>; the second one calls \<^verbatim>\<open>query\<close>, which
  calls \<^verbatim>\<open>loadApiConfig\<close>. Every function of the file is embedded below under its own
  name. What the file takes from Go's standard library (\<^verbatim>\<open>os\<close>, \<^verbatim>\<open>net/http\<close>,
  \<^verbatim>\<open>encoding/json\<close>, \<^verbatim>\<open>strings\<close>) is either written out as the library documents it
  or, where it depends on the file system, the network or the library's version, is a
  field of the record \<open>world\<close>.

  Go strings are byte sequences, hence \<open>string\<close>. The type variable \<open>'f\<close> stands for the
  finite values of \<^verbatim>\<open>float64\<close>: the program never computes with a temperature, it only
  reads one from a JSON literal and prints it again, so only the zero value is needed.
\<close>

subsection \<open>JSON values\<close>

text \<open>
  A JSON text after scanning. Objects keep their members in the order of the text, with
  duplicates, because the decoder of \<^verbatim>\<open>encoding/json\<close> visits them in that order. The type
  parameter is the type of numbers: the literal as written (\<open>string\<close>) in a text that was
  read, a \<^verbatim>\<open>float64\<close> in a value that is to be written.
\<close>

datatype 'n json =
    JNull
  | JBool bool
  | JNumber 'n
  | JString string
  | JArray "'n json list"
  | JObject "(string \<times> 'n json) list"

subsection \<open>The structs of the program\<close>

text \<open>\<^verbatim>\<open>type apiConfig struct { OpenWeatherMapApiKey string `json:"OpenWeatherMapApiKey"` }\<close>\<close>

record apiConfig =
  OpenWeatherMapApiKey :: string

text \<open>
  \<^verbatim>\<open>type weatherData struct { Name string `json:"name"`;
     Main struct { Kelvin float64 `json:"temp"` } `json:"main"` }\<close>.
  The anonymous inner struct is the record \<open>weatherMain\<close>.
\<close>

record 'f weatherMain =
  Kelvin :: 'f

record 'f weatherData =
  Name :: string
  Main :: "'f weatherMain"

text \<open>The zero values \<^verbatim>\<open>apiConfig{}\<close> and \<^verbatim>\<open>weatherData{}\<close>.\<close>

definition apiConfig_zero :: apiConfig where
  "apiConfig_zero = \<lparr>OpenWeatherMapApiKey = []\<rparr>"

definition weatherData_zero :: "('f::zero) weatherData" where
  "weatherData_zero = \<lparr>Name = [], Main = \<lparr>Kelvin = 0\<rparr>\<rparr>"

subsection \<open>Errors\<close>

text \<open>
  The values of Go's \<^verbatim>\<open>error\<close> interface that can reach the handler, one constructor for
  each concrete type: \<^verbatim>\<open>*fs.PathError\<close> from \<^verbatim>\<open>os.ReadFile\<close>, \<^verbatim>\<open>*json.SyntaxError\<close> and
  \<^verbatim>\<open>*json.UnmarshalTypeError\<close> from the decoder, \<^verbatim>\<open>*url.Error\<close> from \<^verbatim>\<open>http.Get\<close>, and
  an error of the transport while the response body is read. \<open>UnmarshalTypeError\<close>
  carries its fields \<^verbatim>\<open>Value\<close> and \<^verbatim>\<open>Field\<close>; the others carry their detail.
\<close>

datatype error =
    PathError string
  | SyntaxError string
  | UnmarshalTypeError string string
  | UrlError string
  | ReadError string

subsection \<open>Requests and responses\<close>

text \<open>
  The fields of \<^verbatim>\<open>*http.Request\<close> that tell requests to one route apart. \<open>Path\<close> is
  \<^verbatim>\<open>r.URL.Path\<close>.
\<close>

record request =
  Method :: string
  Path :: string
  RawQuery :: string

text \<open>
  What a handler writes: bytes given as text, or the line that \<^verbatim>\<open>json.Encoder.Encode\<close>
  writes for a value (the JSON text of the value and a newline).
\<close>

datatype 'f payload =
    Text string
  | JsonLine "'f json"

text \<open>
  An \<^verbatim>\<open>http.ResponseWriter\<close>: the header map, the status code once it is written, and
  the payloads written so far.
\<close>

record 'f responseWriter =
  Header :: "string \<rightharpoonup> string"
  status :: "nat option"
  Written :: "'f payload list"

definition newResponseWriter :: "'f responseWriter" where
  "newResponseWriter = \<lparr>Header = Map.empty, status = None, Written = []\<rparr>"

text \<open>\<^verbatim>\<open>w.WriteHeader(code)\<close>: the first status code written stands.\<close>

definition WriteHeader :: "'f responseWriter \<Rightarrow> nat \<Rightarrow> 'f responseWriter" where
  "WriteHeader w code = (if status w = None then w\<lparr>status := Some code\<rparr> else w)"

text \<open>\<^verbatim>\<open>w.Write(p)\<close>: writes the status 200 first if none was written.\<close>

definition Write :: "'f responseWriter \<Rightarrow> 'f payload \<Rightarrow> 'f responseWriter" where
  "Write w p = (let w' = WriteHeader w 200 in w'\<lparr>Written := Written w' @ [p]\<rparr>)"

text \<open>
  \<^verbatim>\<open>http.Error(w, msg, code)\<close>: sets the content type to plain text, writes the status
  code, and prints the message with \<^verbatim>\<open>fmt.Fprintln\<close>, that is, followed by a newline.
\<close>

definition http_Error :: "'f responseWriter \<Rightarrow> string \<Rightarrow> nat \<Rightarrow> 'f responseWriter" where
  "http_Error w msg code =
     (let w1 = w\<lparr>Header := (Header w)(''Content-Type'' \<mapsto> ''text/plain; charset=utf-8'',
                                        ''X-Content-Type-Options'' \<mapsto> ''nosniff'')\<rparr>;
          w2 = WriteHeader w1 code
      in Write w2 (Text (msg @ [CHR 0x0A])))"

definition StatusBadRequest :: nat where
  "StatusBadRequest = 400"

definition StatusInternalServerError :: nat where
  "StatusInternalServerError = 500"

subsection \<open>The world outside the program\<close>

text \<open>The response of \<^verbatim>\<open>http.Get\<close>: its status code and the bytes of its body.\<close>

record response =
  StatusCode :: nat
  Body :: string

text \<open>
  What the program asks of its surroundings and of library code whose result is not
  fixed by the program text:
  \<^item> \<open>ReadFile\<close> is \<^verbatim>\<open>os.ReadFile\<close>: the bytes of a file, or an error;
  \<^item> \<open>Get\<close> is \<^verbatim>\<open>http.Get\<close>: a response, whatever its status code, or an error when
    no response was obtained;
  \<^item> \<open>scan\<close> is the syntax check of \<^verbatim>\<open>json.Unmarshal\<close>: the JSON value that the whole
    input denotes, or a syntax error;
  \<^item> \<open>scanNext\<close> is the reading of \<^verbatim>\<open>json.Decoder\<close>: the first JSON value of a stream,
    or a syntax or read error;
  \<^item> \<open>ParseFloat\<close> is \<^verbatim>\<open>strconv.ParseFloat(s, 64)\<close> on a JSON number literal, \<open>None\<close>
    when the literal is out of range;
  \<^item> \<open>foldName\<close> is the case folding under which \<^verbatim>\<open>encoding/json\<close> compares an object
    key with a field name when no field has exactly that name;
  \<^item> \<open>Error\<close> is the method \<^verbatim>\<open>Error()\<close> of an error: its message.
\<close>

record 'f world =
  ReadFile :: "string \<Rightarrow> error + string"
  Get :: "string \<Rightarrow> error + response"
  scan :: "string \<Rightarrow> error + string json"
  scanNext :: "string \<Rightarrow> error + string json"
  ParseFloat :: "string \<Rightarrow> 'f option"
  foldName :: "string \<Rightarrow> string"
  Error :: "error \<Rightarrow> string"

text \<open>
  The effects of a request that the claims speak about, in the order in which they
  happen: a file is read, an outbound GET is attempted, the body stream of a response
  is opened (with the response) and closed.
\<close>

datatype event =
    FileRead string
  | HttpGet string
  | BodyOpened string
  | BodyClosed string

section \<open>Library functions the program calls\<close>

subsection \<open>strings.SplitN\<close>

text \<open>
  \<^verbatim>\<open>strings.SplitN(s, sep, n)\<close> for a separator of one byte (the program's is \<^verbatim>\<open>"/"\<close>)
  and \<open>n \<ge> 0\<close>: at most \<open>n\<close> substrings, the last one being the unsplit rest.
\<close>

fun SplitN :: "string \<Rightarrow> char \<Rightarrow> nat \<Rightarrow> string list" where
  "SplitN s sep 0 = []"
| "SplitN s sep (Suc 0) = [s]"
| "SplitN s sep (Suc (Suc n)) =
     (if sep \<in> set s
      then takeWhile (\<lambda>c. c \<noteq> sep) s # SplitN (tl (dropWhile (\<lambda>c. c \<noteq> sep) s)) sep (Suc n)
      else [s])"

subsection \<open>The request router\<close>






subsection \<open>The URL of an outbound request\<close>

text \<open>
  \<^verbatim>\<open>http.Get\<close> parses the string it is given with \<^verbatim>\<open>url.Parse\<close> before anything is sent.
  The string is cut at the first \<^verbatim>\<open>#\<close>. A control byte (below \<^verbatim>\<open>0x20\<close>, or \<^verbatim>\<open>0x7f\<close>) in
  the part before it, or a \<^verbatim>\<open>%\<close> that is not followed by two hexadecimal digits in the
  part after it (the fragment), makes the call fail with nothing sent. Otherwise the
  request is sent with the part before the \<^verbatim>\<open>#\<close>, from the path on, as its target; the
  fragment is not sent. The query is not decoded or checked.
\<close>

definition isCTL :: "char \<Rightarrow> bool" where
  "isCTL c \<longleftrightarrow> of_char c < (32::nat) \<or> of_char c = (127::nat)"

definition ishex :: "char \<Rightarrow> bool" where
  "ishex c \<longleftrightarrow> c \<in> set ''0123456789abcdefABCDEF''"

fun validEscapes :: "string \<Rightarrow> bool" where
  "validEscapes [] = True"
| "validEscapes (c # a # b # s) =
     (if c = CHR ''%'' then ishex a \<and> ishex b \<and> validEscapes s else validEscapes (a # b # s))"
| "validEscapes (c # s) = (c \<noteq> CHR ''%'' \<and> validEscapes s)"

text \<open>
  The URLs of the program are this prefix followed by a rest, which holds the city, the
  text \<^verbatim>\<open>&appid=\<close> and the key.
\<close>

definition weatherURLprefix :: string where
  "weatherURLprefix = ''http://api.Openweathermap.org/data/2.5/weather?q=''"

text \<open>
  The target of the request that \<^verbatim>\<open>http.Get\<close> sends for the URL with the given rest, when
  no proxy is configured; \<open>None\<close> when \<^verbatim>\<open>url.Parse\<close> refuses the URL.
\<close>

definition RequestURI :: "string \<Rightarrow> string option" where
  "RequestURI rest =
     (let sent = takeWhile (\<lambda>c. c \<noteq> CHR ''#'') rest;
          fragment = tl (dropWhile (\<lambda>c. c \<noteq> CHR ''#'') rest)
      in if list_ex isCTL sent then None
         else if \<not> validEscapes fragment then None
         else Some (''/data/2.5/weather?q='' @ sent))"

subsection \<open>Decoding JSON into the structs\<close>

text \<open>
  The decoder of \<^verbatim>\<open>encoding/json\<close> walks the value once. A value that does not fit its
  target is skipped and an \<^verbatim>\<open>UnmarshalTypeError\<close> is saved; only the first one is kept,
  and it is returned at the end. \<^verbatim>\<open>null\<close> leaves a string, a number or a struct as it
  is and is no error.
\<close>

definition saveError :: "error \<Rightarrow> error option \<Rightarrow> error option" where
  "saveError e saved = (case saved of None \<Rightarrow> Some e | Some e0 \<Rightarrow> Some e0)"

text \<open>The field \<^verbatim>\<open>Value\<close> of an \<^verbatim>\<open>UnmarshalTypeError\<close>: the kind of the JSON value.\<close>

fun valueKind :: "'n json \<Rightarrow> string" where
  "valueKind JNull = ''null''"
| "valueKind (JBool b) = ''bool''"
| "valueKind (JNumber n) = ''number''"
| "valueKind (JString s) = ''string''"
| "valueKind (JArray vs) = ''array''"
| "valueKind (JObject kvs) = ''object''"

text \<open>
  The struct field an object key selects, by its tag: a field whose name is the key, or
  else the first field whose folded name is the folded key. A key that selects no field
  is skipped with its value.
\<close>

definition fieldFor :: "'f world \<Rightarrow> string list \<Rightarrow> string \<Rightarrow> string option" where
  "fieldFor env tags key =
     (case find (\<lambda>t. t = key) tags of
        Some t \<Rightarrow> Some t
      | None \<Rightarrow> find (\<lambda>t. foldName env t = foldName env key) tags)"

text \<open>A JSON value stored into a field of type \<^verbatim>\<open>string\<close>.\<close>

fun value_string :: "string \<Rightarrow> string json \<Rightarrow> string \<times> error option \<Rightarrow> string \<times> error option" where
  "value_string field JNull (x, saved) = (x, saved)"
| "value_string field (JString s) (x, saved) = (s, saved)"
| "value_string field v (x, saved) = (x, saveError (UnmarshalTypeError (valueKind v) field) saved)"

text \<open>A JSON value stored into a field of type \<^verbatim>\<open>float64\<close>.\<close>

fun value_float64 :: "'f world \<Rightarrow> string \<Rightarrow> string json \<Rightarrow> 'f \<times> error option \<Rightarrow> 'f \<times> error option" where
  "value_float64 env field JNull (x, saved) = (x, saved)"
| "value_float64 env field (JNumber lit) (x, saved) =
     (case ParseFloat env lit of
        Some f \<Rightarrow> (f, saved)
      | None \<Rightarrow> (x, saveError (UnmarshalTypeError (''number '' @ lit) field) saved))"
| "value_float64 env field v (x, saved) = (x, saveError (UnmarshalTypeError (valueKind v) field) saved)"

text \<open>The members of an object stored into the inner struct, in order.\<close>

fun object_weatherMain ::
  "'f world \<Rightarrow> (string \<times> string json) list \<Rightarrow> 'f weatherMain \<times> error option \<Rightarrow> 'f weatherMain \<times> error option" where
  "object_weatherMain env [] st = st"
| "object_weatherMain env ((key, v) # kvs) (m, saved) =
     object_weatherMain env kvs
       (case fieldFor env [''temp''] key of
          None \<Rightarrow> (m, saved)
        | Some t \<Rightarrow>
            (case value_float64 env ''main.temp'' v (Kelvin m, saved) of
               (x, saved') \<Rightarrow> (m\<lparr>Kelvin := x\<rparr>, saved')))"

fun value_weatherMain ::
  "'f world \<Rightarrow> string json \<Rightarrow> 'f weatherMain \<times> error option \<Rightarrow> 'f weatherMain \<times> error option" where
  "value_weatherMain env JNull (m, saved) = (m, saved)"
| "value_weatherMain env (JObject kvs) (m, saved) = object_weatherMain env kvs (m, saved)"
| "value_weatherMain env v (m, saved) = (m, saveError (UnmarshalTypeError (valueKind v) ''main'') saved)"

text \<open>The members of an object stored into \<^verbatim>\<open>weatherData\<close>, in order.\<close>

fun object_weatherData ::
  "'f world \<Rightarrow> (string \<times> string json) list \<Rightarrow> 'f weatherData \<times> error option \<Rightarrow> 'f weatherData \<times> error option" where
  "object_weatherData env [] st = st"
| "object_weatherData env ((key, v) # kvs) (d, saved) =
     object_weatherData env kvs
       (case fieldFor env [''name'', ''main''] key of
          None \<Rightarrow> (d, saved)
        | Some t \<Rightarrow>
            (if t = ''name''
             then (case value_string ''name'' v (Name d, saved) of
                     (x, saved') \<Rightarrow> (d\<lparr>Name := x\<rparr>, saved'))
             else (case value_weatherMain env v (Main d, saved) of
                     (m, saved') \<Rightarrow> (d\<lparr>Main := m\<rparr>, saved'))))"

fun value_weatherData ::
  "'f world \<Rightarrow> string json \<Rightarrow> 'f weatherData \<times> error option \<Rightarrow> 'f weatherData \<times> error option" where
  "value_weatherData env JNull (d, saved) = (d, saved)"
| "value_weatherData env (JObject kvs) (d, saved) = object_weatherData env kvs (d, saved)"
| "value_weatherData env v (d, saved) = (d, saveError (UnmarshalTypeError (valueKind v) []) saved)"

text \<open>The members of an object stored into \<^verbatim>\<open>apiConfig\<close>, in order.\<close>

fun object_apiConfig ::
  "'f world \<Rightarrow> (string \<times> string json) list \<Rightarrow> apiConfig \<times> error option \<Rightarrow> apiConfig \<times> error option" where
  "object_apiConfig env [] st = st"
| "object_apiConfig env ((key, v) # kvs) (c, saved) =
     object_apiConfig env kvs
       (case fieldFor env [''OpenWeatherMapApiKey''] key of
          None \<Rightarrow> (c, saved)
        | Some t \<Rightarrow>
            (case value_string ''OpenWeatherMapApiKey'' v (OpenWeatherMapApiKey c, saved) of
               (x, saved') \<Rightarrow> (c\<lparr>OpenWeatherMapApiKey := x\<rparr>, saved')))"

fun value_apiConfig ::
  "'f world \<Rightarrow> string json \<Rightarrow> apiConfig \<times> error option \<Rightarrow> apiConfig \<times> error option" where
  "value_apiConfig env JNull (c, saved) = (c, saved)"
| "value_apiConfig env (JObject kvs) (c, saved) = object_apiConfig env kvs (c, saved)"
| "value_apiConfig env v (c, saved) = (c, saveError (UnmarshalTypeError (valueKind v) []) saved)"

text \<open>
  \<^verbatim>\<open>json.Unmarshal(bytes, &c)\<close> with \<open>c\<close> a zero \<^verbatim>\<open>apiConfig\<close>: the syntax check of the
  whole input, then the walk; the saved error, if any, is the result.
\<close>

definition Unmarshal_apiConfig :: "'f world \<Rightarrow> string \<Rightarrow> error + apiConfig" where
  "Unmarshal_apiConfig env bytes =
     (case scan env bytes of
        Inl err \<Rightarrow> Inl err
      | Inr v \<Rightarrow>
          (case value_apiConfig env v (apiConfig_zero, None) of
             (c, None) \<Rightarrow> Inr c
           | (c, Some err) \<Rightarrow> Inl err))"

text \<open>\<^verbatim>\<open>json.NewDecoder(body).Decode(&d)\<close> with \<open>d\<close> a zero \<^verbatim>\<open>weatherData\<close>.\<close>

definition Decode_weatherData :: "('f::zero) world \<Rightarrow> string \<Rightarrow> error + 'f weatherData" where
  "Decode_weatherData env body =
     (case scanNext env body of
        Inl err \<Rightarrow> Inl err
      | Inr v \<Rightarrow>
          (case value_weatherData env v (weatherData_zero, None) of
             (d, None) \<Rightarrow> Inr d
           | (d, Some err) \<Rightarrow> Inl err))"

subsection \<open>Encoding the report\<close>

text \<open>
  The JSON value of a \<^verbatim>\<open>weatherData\<close>: its fields in the order of the struct, under the
  names of their tags.
\<close>

definition Marshal_weatherData :: "'f weatherData \<Rightarrow> 'f json" where
  "Marshal_weatherData d =
     JObject [(''name'', JString (Name d)),
              (''main'', JObject [(''temp'', JNumber (Kelvin (Main d)))])]"

text \<open>\<^verbatim>\<open>json.NewEncoder(w).Encode(data)\<close>: one write of the value's line.\<close>

definition Encode :: "'f responseWriter \<Rightarrow> 'f weatherData \<Rightarrow> 'f responseWriter" where
  "Encode w d = Write w (JsonLine (Marshal_weatherData d))"

section \<open>The functions of the program\<close>

subsection \<open>loadApiConfig\<close>

text \<open>
  \<^verbatim>\<open>bytes, err := os.ReadFile(filename); if err != nil { return apiConfig{}, err }\<close>
  \<^verbatim>\<open>err = json.Unmarshal(bytes, &c); if err != nil { return apiConfig{}, err }; return c, nil\<close>
\<close>

definition loadApiConfig ::
    "'f world \<Rightarrow> string \<Rightarrow> event list \<Rightarrow> (error + apiConfig) \<times> event list" where
  "loadApiConfig env filename tr =
     (case ReadFile env filename of
        Inl err \<Rightarrow> (Inl err, tr @ [FileRead filename])
      | Inr bytes \<Rightarrow>
          (case Unmarshal_apiConfig env bytes of
             Inl err \<Rightarrow> (Inl err, tr @ [FileRead filename])
           | Inr c \<Rightarrow> (Inr c, tr @ [FileRead filename])))"

subsection \<open>query\<close>

text \<open>The URL that \<^verbatim>\<open>query\<close> builds by concatenation.\<close>

definition weatherURL :: "string \<Rightarrow> string \<Rightarrow> string" where
  "weatherURL city key =
     ''http://api.Openweathermap.org/data/2.5/weather?q='' @ city @ ''&appid='' @ key"

text \<open>
  \<^verbatim>\<open>query\<close>: the configuration is loaded; on success the GET is made; on success its body
  is decoded. \<^verbatim>\<open>defer resp.Body.Close()\<close> follows the successful GET, so the body is
  closed when \<^verbatim>\<open>query\<close> returns, after the decoding, whatever its outcome.
\<close>

definition query ::
    "('f::zero) world \<Rightarrow> string \<Rightarrow> event list \<Rightarrow> (error + 'f weatherData) \<times> event list" where
  "query env city tr =
     (case loadApiConfig env ''.apiConfig'' tr of
        (Inl err, tr1) \<Rightarrow> (Inl err, tr1)
      | (Inr cfg, tr1) \<Rightarrow>
          (let url = weatherURL city (OpenWeatherMapApiKey cfg);
               tr2 = tr1 @ [HttpGet url]
           in case Get env url of
                Inl err \<Rightarrow> (Inl err, tr2)
              | Inr resp \<Rightarrow>
                  (let tr3 = tr2 @ [BodyOpened url];
                       result = (case Decode_weatherData env (Body resp) of
                                   Inl err \<Rightarrow> Inl err
                                 | Inr d \<Rightarrow> Inr d)
                   in (result, tr3 @ [BodyClosed url]))))"

section \<open>The handlers\<close>

subsection \<open>hello\<close>

text \<open>\<^verbatim>\<open>func hello(w, r) { w.Write([]byte("Hello, World!\n")) }\<close>\<close>

definition hello :: "'f responseWriter \<Rightarrow> request \<Rightarrow> 'f responseWriter" where
  "hello w r = Write w (Text (''Hello, World!'' @ [CHR 0x0A]))"

subsection \<open>The handler of /weather/\<close>

text \<open>
  The anonymous function registered for \<^verbatim>\<open>"/weather/"\<close> in \<^verbatim>\<open>main\<close>:
  \<^verbatim>\<open>parts := strings.SplitN(r.URL.Path, "/", 3)\<close>
  \<^verbatim>\<open>if len(parts) < 3 || parts[2] == "" { http.Error(w, "City name not provided", 400); return }\<close>
  \<^verbatim>\<open>data, err := query(parts[2])\<close>
  \<^verbatim>\<open>if err != nil { http.Error(w, err.Error(), 500); return }\<close>
  \<^verbatim>\<open>w.Header().Set("Content-Type", "application/json; charset=utf-8")\<close>
  \<^verbatim>\<open>json.NewEncoder(w).Encode(data)\<close>
\<close>

definition weatherHandler ::
    "('f::zero) world \<Rightarrow> 'f responseWriter \<Rightarrow> request \<Rightarrow> event list \<Rightarrow> 'f responseWriter \<times> event list" where
  "weatherHandler env w r tr =
     (let parts = SplitN (Path r) (CHR ''/'') 3
      in if length parts < 3 \<or> parts ! 2 = []
         then (http_Error w ''City name not provided'' StatusBadRequest, tr)
         else (case query env (parts ! 2) tr of
                 (Inl err, tr') \<Rightarrow> (http_Error w (Error env err) StatusInternalServerError, tr')
               | (Inr data, tr') \<Rightarrow>
                   (Encode (w\<lparr>Header := (Header w)(''Content-Type'' \<mapsto> ''application/json; charset=utf-8'')\<rparr>) data,
                    tr')))"

subsection \<open>main: the two routes\<close>




section \<open>Example worlds\<close>

text \<open>
  Concrete worlds on which the theorems below are run. The JSON texts of the examples
  are listed with the values they scan to; any other text is a syntax error.
\<close>

definition goodConfigText :: string where
  \<open>goodConfigText = ''{"OpenWeatherMapApiKey":"abc123"}''\<close>

definition otherKeyConfigText :: string where
  \<open>otherKeyConfigText = ''{"apiKey":"abc123"}''\<close>

definition londonText :: string where
  \<open>londonText = ''{"name":"London","main":{"temp":288.5,"humidity":81},"cod":200}''\<close>

definition londonParisText :: string where
  \<open>londonParisText = ''{"name":"London","main":{"temp":288.5},"NAME":"Paris"}''\<close>

definition unauthorizedText :: string where
  \<open>unauthorizedText = ''{"cod":401,"message":"Invalid API key"}''\<close>

definition exampleTexts :: "(string \<times> string json) list" where
  "exampleTexts =
     [(goodConfigText,
         JObject [(''OpenWeatherMapApiKey'', JString ''abc123'')]),
      (otherKeyConfigText,
         JObject [(''apiKey'', JString ''abc123'')]),
      (londonText,
         JObject [(''name'', JString ''London''),
                  (''main'', JObject [(''temp'', JNumber ''288.5''), (''humidity'', JNumber ''81'')]),
                  (''cod'', JNumber ''200'')]),
      (londonParisText,
         JObject [(''name'', JString ''London''),
                  (''main'', JObject [(''temp'', JNumber ''288.5'')]),
                  (''NAME'', JString ''Paris'')]),
      (unauthorizedText,
         JObject [(''cod'', JNumber ''401''), (''message'', JString ''Invalid API key'')])]"

definition exampleScan :: "string \<Rightarrow> error + string json" where
  "exampleScan text =
     (case map_of exampleTexts text of
        Some v \<Rightarrow> Inr v
      | None \<Rightarrow> Inl (SyntaxError ''invalid character''))"

definition exampleError :: "error \<Rightarrow> string" where
  "exampleError err =
     (case err of
        PathError m \<Rightarrow> m
      | SyntaxError m \<Rightarrow> m
      | UnmarshalTypeError v f \<Rightarrow> ''json: cannot unmarshal '' @ v @ '' into Go struct field '' @ f
      | UrlError m \<Rightarrow> m
      | ReadError m \<Rightarrow> m)"

text \<open>Upper case for the letters of ASCII, as a case folding of the examples.\<close>

definition upperASCII :: "char \<Rightarrow> char" where
  "upperASCII c =
     (case map_of (zip ''abcdefghijklmnopqrstuvwxyz'' ''ABCDEFGHIJKLMNOPQRSTUVWXYZ'') c of
        Some u \<Rightarrow> u
      | None \<Rightarrow> c)"

text \<open>
  The world in which reading \<^verbatim>\<open>.apiConfig\<close> gives \<open>file\<close> and every GET gives \<open>reply\<close>.
\<close>

definition exampleWorld :: "(error + string) \<Rightarrow> (error + response) \<Rightarrow> real world" where
  "exampleWorld file reply =
     \<lparr>ReadFile = (\<lambda>path. if path = ''.apiConfig'' then file else Inl (PathError ''no such file'')),
      Get = (\<lambda>url. reply),
      scan = exampleScan,
      scanNext = exampleScan,
      ParseFloat = map_of [(''288.5'', 288.5), (''81'', 81), (''200'', 200), (''401'', 401)],
      foldName = map upperASCII,
      Error = exampleError\<rparr>"

definition missingFile :: "error + string" where
  "missingFile = Inl (PathError ''open .apiConfig: no such file or directory'')"

definition exampleRequest :: "string \<Rightarrow> request" where
  "exampleRequest path = \<lparr>Method = ''GET'', Path = path, RawQuery = []\<rparr>"

text \<open>
  A world whose \<^verbatim>\<open>http.Get\<close> parses the URL as described above and whose upstream
  answers every request with its own target as the body.
\<close>

definition echo :: "string \<Rightarrow> error + response" where
  "echo uri = Inr \<lparr>StatusCode = 200, Body = uri\<rparr>"

definition echoWorld :: "real world" where
  "echoWorld =
     (exampleWorld (Inr goodConfigText) (Inl (UrlError [])))
       \<lparr>Get := (\<lambda>url. case RequestURI (drop (length weatherURLprefix) url) of
                        None \<Rightarrow> Inl (UrlError ''parse'')
                      | Some uri \<Rightarrow> echo uri)\<rparr>"

section \<open>Notions used in the statements\<close>

text \<open>
  The members of a JSON object that the decoder stores into the field tagged \<open>tag\<close> of
  a struct whose fields are tagged \<open>tags\<close>.
\<close>

definition members ::
    "'f world \<Rightarrow> string list \<Rightarrow> string \<Rightarrow> (string \<times> 'n json) list \<Rightarrow> (string \<times> 'n json) list" where
  "members env tags tag kvs = filter (\<lambda>kv. fieldFor env tags (fst kv) = Some tag) kvs"

text \<open>
  The \<^verbatim>\<open>Get\<close> of a world is \<^verbatim>\<open>http.Get\<close> over the transport \<open>send\<close>: for every URL of the
  program it fails when the URL is refused, and is otherwise what the transport answers
  to the request target.
\<close>

definition Get_sends :: "'f world \<Rightarrow> (string \<Rightarrow> error + response) \<Rightarrow> bool" where
  "Get_sends env send \<longleftrightarrow>
     (\<forall>rest. case RequestURI rest of
               None \<Rightarrow> isl (Get env (weatherURLprefix @ rest))
             | Some uri \<Rightarrow> Get env (weatherURLprefix @ rest) = send uri)"

text \<open>
  The response bodies that are open after a sequence of events: each one opened and not
  closed since.
\<close>

fun streamStep :: "string list \<Rightarrow> event \<Rightarrow> string list" where
  "streamStep opened (BodyOpened url) = url # opened"
| "streamStep opened (BodyClosed url) = remove1 url opened"
| "streamStep opened ev = opened"

definition openStreams :: "event list \<Rightarrow> string list" where
  "openStreams tr = foldl streamStep [] tr"

text \<open>The events of one call of \<^verbatim>\<open>query\<close> after another, for a list of cities.\<close>

fun queries :: "('f::zero) world \<Rightarrow> string list \<Rightarrow> event list \<Rightarrow> event list" where
  "queries env [] tr = tr"
| "queries env (city # cities) tr = queries env cities (snd (query env city tr))"

fun isHttpGet :: "event \<Rightarrow> bool" where
  "isHttpGet (HttpGet url) = True"
| "isHttpGet ev = False"

fun isFileRead :: "event \<Rightarrow> bool" where
  "isFileRead (FileRead path) = True"
| "isFileRead ev = False"

section \<open>Lemmas about the functions\<close>

subsection \<open>The path and the handler\<close>

lemma SplitN_weather: "SplitN (''/weather/'' @ c) (CHR ''/'') 3 = [[], ''weather'', c]"
  by (simp add: numeral_3_eq_3)


lemma weatherHandler_city:
  "c \<noteq> [] \<Longrightarrow>
   weatherHandler env w (r\<lparr>Path := ''/weather/'' @ c\<rparr>) tr =
     (case query env c tr of
        (Inl err, tr') \<Rightarrow> (http_Error w (Error env err) 500, tr')
      | (Inr d, tr') \<Rightarrow>
          (Encode (w\<lparr>Header := (Header w)(''Content-Type'' \<mapsto> ''application/json; charset=utf-8'')\<rparr>) d, tr'))"
  using SplitN_weather [of c]
  unfolding weatherHandler_def StatusInternalServerError_def
  by (simp del: SplitN.simps)

lemma loadApiConfig_trace: "snd (loadApiConfig env f tr) = tr @ [FileRead f]"
  by (simp add: loadApiConfig_def split: sum.splits)

lemma query_config_error:
  "fst (loadApiConfig env ''.apiConfig'' tr) = Inl err \<Longrightarrow>
   query env c tr = (Inl err, tr @ [FileRead ''.apiConfig''])"
  using loadApiConfig_trace [of env "''.apiConfig''" tr]
  by (cases "loadApiConfig env ''.apiConfig'' tr") (simp add: query_def)

lemma query_get_error:
  "fst (loadApiConfig env ''.apiConfig'' tr) = Inr cfg \<Longrightarrow>
   Get env (weatherURL c (OpenWeatherMapApiKey cfg)) = Inl err \<Longrightarrow>
   query env c tr =
     (Inl err, tr @ [FileRead ''.apiConfig'', HttpGet (weatherURL c (OpenWeatherMapApiKey cfg))])"
  using loadApiConfig_trace [of env "''.apiConfig''" tr]
  by (cases "loadApiConfig env ''.apiConfig'' tr") (simp add: query_def)

lemma query_response:
  "fst (loadApiConfig env ''.apiConfig'' tr) = Inr cfg \<Longrightarrow>
   Get env (weatherURL c (OpenWeatherMapApiKey cfg)) = Inr resp \<Longrightarrow>
   query env c tr =
     (Decode_weatherData env (Body resp),
      tr @ [FileRead ''.apiConfig'',
            HttpGet (weatherURL c (OpenWeatherMapApiKey cfg)),
            BodyOpened (weatherURL c (OpenWeatherMapApiKey cfg)),
            BodyClosed (weatherURL c (OpenWeatherMapApiKey cfg))])"
  using loadApiConfig_trace [of env "''.apiConfig''" tr]
  by (cases "loadApiConfig env ''.apiConfig'' tr") (simp add: query_def Let_def split: sum.splits)

subsection \<open>The decoder\<close>

lemma fieldFor_key: "fieldFor env [tag] k = Some t \<Longrightarrow> t = tag"
  by (auto simp: fieldFor_def split: option.splits if_splits)

lemma fieldFor_name_main:
  "fieldFor env [''name'', ''main''] k = Some t \<Longrightarrow> t = ''name'' \<or> t = ''main''"
  by (auto simp: fieldFor_def split: option.splits if_splits)

lemma object_weatherMain_skip:
  "members env [''temp''] ''temp'' kvs = [] \<Longrightarrow> object_weatherMain env kvs st = st"
proof (induction kvs arbitrary: st)
  case Nil
  then show ?case by simp
next
  case (Cons kv kvs)
  obtain k v where kv: "kv = (k, v)" by (cases kv)
  obtain m saved where st: "st = (m, saved)" by (cases st)
  from Cons.prems kv have none: "fieldFor env [''temp''] k = None"
    by (cases "fieldFor env [''temp''] k") (auto simp: members_def dest: fieldFor_key split: if_splits)
  from Cons.prems kv none have "members env [''temp''] ''temp'' kvs = []"
    by (simp add: members_def)
  with Cons.IH kv st none show ?case by simp
qed

lemma object_weatherMain_one:
  "members env [''temp''] ''temp'' kvs = [(''temp'', JNumber lit)] \<Longrightarrow>
   ParseFloat env lit = Some t \<Longrightarrow>
   object_weatherMain env kvs (m, saved) = (m\<lparr>Kelvin := t\<rparr>, saved)"
proof (induction kvs arbitrary: m)
  case Nil
  then show ?case by (simp add: members_def)
next
  case (Cons kv kvs)
  obtain k v where kv: "kv = (k, v)" by (cases kv)
  show ?case
  proof (cases "fieldFor env [''temp''] k")
    case None
    with Cons.prems kv have "members env [''temp''] ''temp'' kvs = [(''temp'', JNumber lit)]"
      by (simp add: members_def)
    with Cons.IH Cons.prems(2) kv None show ?thesis by simp
  next
    case (Some t')
    then have sel: "fieldFor env [''temp''] k = Some ''temp''"
      using fieldFor_key by blast
    with Cons.prems kv have v: "v = JNumber lit" and rest: "members env [''temp''] ''temp'' kvs = []"
      by (simp_all add: members_def)
    from rest show ?thesis
      using kv sel v Cons.prems(2) by (simp add: object_weatherMain_skip)
  qed
qed


lemma object_weatherData_fields:
  assumes main: "\<And>m saved. object_weatherMain env mkvs (m, saved) = (m\<lparr>Kelvin := t\<rparr>, saved)"
  shows "members env [''name'', ''main''] ''name'' kvs = ns \<Longrightarrow>
   members env [''name'', ''main''] ''main'' kvs = ms \<Longrightarrow>
   ns = [] \<or> ns = [(''name'', JString n)] \<Longrightarrow>
   ms = [] \<or> ms = [(''main'', JObject mkvs)] \<Longrightarrow>
   object_weatherData env kvs (d, saved) =
     (d\<lparr>Name := (if ns = [] then Name d else n),
        Main := (if ms = [] then Main d else (Main d)\<lparr>Kelvin := t\<rparr>)\<rparr>, saved)"
proof (induction kvs arbitrary: d ns ms)
  case Nil
  then show ?case by (simp add: members_def)
next
  case (Cons kv kvs)
  obtain k v where kv: "kv = (k, v)" by (cases kv)
  let ?T = "[''name'', ''main'']"
  consider (none) "fieldFor env ?T k = None"
    | (name) "fieldFor env ?T k = Some ''name''"
    | (main) "fieldFor env ?T k = Some ''main''"
    using fieldFor_name_main [of env k] by (cases "fieldFor env ?T k") auto
  then show ?case
  proof cases
    case none
    with Cons.prems kv have "members env ?T ''name'' kvs = ns" "members env ?T ''main'' kvs = ms"
      by (simp_all add: members_def)
    from Cons.IH [OF this Cons.prems(3,4)] kv none show ?thesis by simp
  next
    case name
    with Cons.prems(1,3) kv have v: "v = JString n" and ns: "ns = [(''name'', JString n)]"
      and rest: "members env ?T ''name'' kvs = []"
      by (auto simp: members_def)
    from name Cons.prems(2) kv have ms: "members env ?T ''main'' kvs = ms"
      by (simp add: members_def)
    from Cons.IH [OF rest ms _ Cons.prems(4), of "d\<lparr>Name := n\<rparr>"] kv name v ns
    show ?thesis by simp
  next
    case main
    with Cons.prems(2,4) kv have v: "v = JObject mkvs" and ms: "ms = [(''main'', JObject mkvs)]"
      and rest: "members env ?T ''main'' kvs = []"
      by (auto simp: members_def)
    from main Cons.prems(1) kv have ns: "members env ?T ''name'' kvs = ns"
      by (simp add: members_def)
    from Cons.IH [OF ns rest Cons.prems(3), of "d\<lparr>Main := (Main d)\<lparr>Kelvin := t\<rparr>\<rparr>"] kv main v ms
    show ?thesis by (simp add: assms)
  qed
qed

subsection \<open>The events of a query\<close>

lemma query_trace_cases:
  obtains (config) err where "query env c tr = (Inl err, tr @ [FileRead ''.apiConfig''])"
      and "fst (loadApiConfig env ''.apiConfig'' tr) = Inl err"
  | (transport) err cfg where
      "query env c tr =
         (Inl err, tr @ [FileRead ''.apiConfig'', HttpGet (weatherURL c (OpenWeatherMapApiKey cfg))])"
      and "fst (loadApiConfig env ''.apiConfig'' tr) = Inr cfg"
      and "Get env (weatherURL c (OpenWeatherMapApiKey cfg)) = Inl err"
  | (response) cfg resp where
      "query env c tr =
         (Decode_weatherData env (Body resp),
          tr @ [FileRead ''.apiConfig'',
                HttpGet (weatherURL c (OpenWeatherMapApiKey cfg)),
                BodyOpened (weatherURL c (OpenWeatherMapApiKey cfg)),
                BodyClosed (weatherURL c (OpenWeatherMapApiKey cfg))])"
      and "fst (loadApiConfig env ''.apiConfig'' tr) = Inr cfg"
      and "Get env (weatherURL c (OpenWeatherMapApiKey cfg)) = Inr resp"
proof (cases "fst (loadApiConfig env ''.apiConfig'' tr)")
  case (Inl err)
  then show ?thesis using config query_config_error by blast
next
  case (Inr cfg)
  show ?thesis
  proof (cases "Get env (weatherURL c (OpenWeatherMapApiKey cfg))")
    case (Inl err)
    with Inr show ?thesis using transport query_get_error by blast
  next
    case Inr2: (Inr resp)
    with Inr show ?thesis using response query_response by blast
  qed
qed

lemma openStreams_append: "openStreams (tr @ evs) = foldl streamStep (openStreams tr) evs"
  by (simp add: openStreams_def)

lemma query_openStreams: "openStreams (snd (query env c tr)) = openStreams tr"
  by (cases rule: query_trace_cases [of env c tr]) (simp_all add: openStreams_append)

lemma queries_openStreams: "openStreams (queries env cs tr) = openStreams tr"
  by (induction cs arbitrary: tr) (simp_all add: query_openStreams)

lemma http_Error_fresh:
  "http_Error newResponseWriter msg code =
     \<lparr>Header = [''Content-Type'' \<mapsto> ''text/plain; charset=utf-8'',
                ''X-Content-Type-Options'' \<mapsto> ''nosniff''],
      status = Some code, Written = [Text (msg @ [CHR 0x0A])]\<rparr>"
  by (simp add: http_Error_def Write_def WriteHeader_def newResponseWriter_def Let_def)

lemma Encode_fresh:
  "Encode (newResponseWriter\<lparr>Header := (Header newResponseWriter)(''Content-Type'' \<mapsto> ct)\<rparr>) d =
     \<lparr>Header = [''Content-Type'' \<mapsto> ct], status = Some 200,
      Written = [JsonLine (Marshal_weatherData d)]\<rparr>"
  by (simp add: Encode_def Write_def WriteHeader_def newResponseWriter_def Let_def)

lemma weatherHandler_fresh_city:
  "c \<noteq> [] \<Longrightarrow>
   weatherHandler env newResponseWriter (r\<lparr>Path := ''/weather/'' @ c\<rparr>) tr =
     (case query env c tr of
        (Inl err, tr') \<Rightarrow>
          (\<lparr>Header = [''Content-Type'' \<mapsto> ''text/plain; charset=utf-8'',
                      ''X-Content-Type-Options'' \<mapsto> ''nosniff''],
            status = Some 500,
            Written = [Text (Error env err @ [CHR 0x0A])]\<rparr>, tr')
      | (Inr d, tr') \<Rightarrow>
          (\<lparr>Header = [''Content-Type'' \<mapsto> ''application/json; charset=utf-8''],
            status = Some 200,
            Written = [JsonLine (Marshal_weatherData d)]\<rparr>, tr'))"
  using weatherHandler_city [of c env newResponseWriter r tr]
  by (simp add: http_Error_fresh Encode_fresh split: prod.splits sum.splits)

subsection \<open>Reading the configuration\<close>

lemma loadApiConfig_read_error:
  "ReadFile env p = Inl err \<Longrightarrow> loadApiConfig env p tr = (Inl err, tr @ [FileRead p])"
  by (simp add: loadApiConfig_def)

lemma loadApiConfig_read_ok:
  "ReadFile env p = Inr bytes \<Longrightarrow>
   loadApiConfig env p tr = (Unmarshal_apiConfig env bytes, tr @ [FileRead p])"
  by (simp add: loadApiConfig_def split: sum.splits)

lemma Unmarshal_apiConfig_syntax_error:
  "scan env bytes = Inl err \<Longrightarrow> Unmarshal_apiConfig env bytes = Inl err"
  by (simp add: Unmarshal_apiConfig_def)

lemma object_apiConfig_skip:
  "members env [''OpenWeatherMapApiKey''] ''OpenWeatherMapApiKey'' kvs = [] \<Longrightarrow>
   object_apiConfig env kvs st = st"
proof (induction kvs arbitrary: st)
  case Nil
  then show ?case by simp
next
  case (Cons kv kvs)
  obtain k v where kv: "kv = (k, v)" by (cases kv)
  obtain c saved where st: "st = (c, saved)" by (cases st)
  from Cons.prems kv have none: "fieldFor env [''OpenWeatherMapApiKey''] k = None"
    by (cases "fieldFor env [''OpenWeatherMapApiKey''] k")
       (auto simp: members_def dest: fieldFor_key split: if_splits)
  from Cons.prems kv none have "members env [''OpenWeatherMapApiKey''] ''OpenWeatherMapApiKey'' kvs = []"
    by (simp add: members_def)
  with Cons.IH kv st none show ?case by simp
qed

lemma Unmarshal_apiConfig_no_member:
  "scan env bytes = Inr (JObject kvs) \<Longrightarrow>
   members env [''OpenWeatherMapApiKey''] ''OpenWeatherMapApiKey'' kvs = [] \<Longrightarrow>
   Unmarshal_apiConfig env bytes = Inr \<lparr>OpenWeatherMapApiKey = []\<rparr>"
  by (simp add: Unmarshal_apiConfig_def object_apiConfig_skip apiConfig_zero_def)

subsection \<open>The status code of the upstream response\<close>

lemma weatherHandler_ignores_StatusCode:
  assumes "c \<noteq> []"
    and "fst (loadApiConfig env ''.apiConfig'' tr) = Inr cfg"
    and "Get env (weatherURL c (OpenWeatherMapApiKey cfg)) = Inr resp"
  shows "status (fst (weatherHandler env newResponseWriter (r\<lparr>Path := ''/weather/'' @ c\<rparr>) tr)) =
           (case Decode_weatherData env (Body resp) of Inl err \<Rightarrow> Some 500 | Inr d \<Rightarrow> Some 200)"
  using weatherHandler_fresh_city [OF assms(1), of env r tr] query_response [OF assms(2,3)]
  by (simp split: sum.splits)

subsection \<open>The router\<close>













subsection \<open>The outbound URL\<close>

lemma RequestURI_plain:
  assumes "\<not> list_ex isCTL rest" and "CHR ''#'' \<notin> set rest"
  shows "RequestURI rest = Some (''/data/2.5/weather?q='' @ rest)"
proof -
  from assms(2) have tw: "takeWhile (\<lambda>c. c \<noteq> CHR ''#'') rest = rest"
    and dw: "dropWhile (\<lambda>c. c \<noteq> CHR ''#'') rest = []"
    by auto
  show ?thesis
    unfolding RequestURI_def Let_def tw dw using assms(1) by simp
qed

lemma Get_sends_echoWorld: "Get_sends echoWorld echo"
  by (simp add: Get_sends_def echoWorld_def exampleWorld_def weatherURLprefix_def split: option.splits)

subsection \<open>Unfolding on concrete inputs\<close>

lemmas program_defs =
  weatherHandler_def query_def loadApiConfig_def Unmarshal_apiConfig_def Decode_weatherData_def
  weatherURL_def Encode_def Marshal_weatherData_def http_Error_def Write_def WriteHeader_def
  newResponseWriter_def StatusBadRequest_def StatusInternalServerError_def fieldFor_def
  saveError_def apiConfig_zero_def weatherData_zero_def numeral_3_eq_3 Let_def

lemmas example_defs =
  exampleWorld_def exampleScan_def exampleTexts_def exampleError_def upperASCII_def
  goodConfigText_def otherKeyConfigText_def londonText_def londonParisText_def
  unauthorizedText_def missingFile_def exampleRequest_def

section \<open>Properties\<close>

subsection \<open>C1: the report\<close>

text \<open>
  C1, as amended. Let the city be non-empty, the configuration load and the GET give a
  response whose body is a JSON object. Let the object have exactly one member that the
  decoder stores into \<^verbatim>\<open>Name\<close>, keyed \<^verbatim>\<open>"name"\<close> and holding a string \<open>n\<close>; exactly one
  that it stores into \<^verbatim>\<open>Main\<close>, keyed \<^verbatim>\<open>"main"\<close> and holding an object; and let that
  object have exactly one member stored into \<^verbatim>\<open>Kelvin\<close>, keyed \<^verbatim>\<open>"temp"\<close> and holding a
  number literal that denotes the float \<open>t\<close>. Then the handler answers with status 200,
  the JSON content type and exactly the object \<^verbatim>\<open>{"name": n, "main": {"temp": t}}\<close>:
  every other member of the body is dropped.
\<close>

theorem weather_report_roundtrip:
  assumes "c \<noteq> []"
    and "fst (loadApiConfig env ''.apiConfig'' tr) = Inr cfg"
    and "Get env (weatherURL c (OpenWeatherMapApiKey cfg)) = Inr resp"
    and "scanNext env (Body resp) = Inr (JObject kvs)"
    and "members env [''name'', ''main''] ''name'' kvs = [(''name'', JString n)]"
    and "members env [''name'', ''main''] ''main'' kvs = [(''main'', JObject mkvs)]"
    and "members env [''temp''] ''temp'' mkvs = [(''temp'', JNumber lit)]"
    and "ParseFloat env lit = Some t"
  shows "status (fst (weatherHandler env newResponseWriter (r\<lparr>Path := ''/weather/'' @ c\<rparr>) tr)) = Some 200 \<and>
         Header (fst (weatherHandler env newResponseWriter (r\<lparr>Path := ''/weather/'' @ c\<rparr>) tr)) ''Content-Type''
           = Some ''application/json; charset=utf-8'' \<and>
         Written (fst (weatherHandler env newResponseWriter (r\<lparr>Path := ''/weather/'' @ c\<rparr>) tr))
           = [JsonLine (JObject [(''name'', JString n), (''main'', JObject [(''temp'', JNumber t)])])]"
proof -
  have inner: "\<And>m saved. object_weatherMain env mkvs (m, saved) = (m\<lparr>Kelvin := t\<rparr>, saved)"
    using assms(7,8) by (rule object_weatherMain_one)
  have "object_weatherData env kvs (weatherData_zero, None) =
          (\<lparr>Name = n, Main = \<lparr>Kelvin = t\<rparr>\<rparr>, None)"
    using object_weatherData_fields [OF inner assms(5,6), of n weatherData_zero None]
    by (simp add: weatherData_zero_def)
  then have "Decode_weatherData env (Body resp) = Inr \<lparr>Name = n, Main = \<lparr>Kelvin = t\<rparr>\<rparr>"
    using assms(4) by (simp add: Decode_weatherData_def)
  then have "fst (query env c tr) = Inr \<lparr>Name = n, Main = \<lparr>Kelvin = t\<rparr>\<rparr>"
    using query_response [OF assms(2,3)] by simp
  then show ?thesis
    using weatherHandler_city [OF assms(1), of env newResponseWriter r tr]
    by (cases "query env c tr")
       (simp add: Encode_def Marshal_weatherData_def Write_def WriteHeader_def newResponseWriter_def)
qed

text \<open>
  The theorem at the London response of the examples, which has the further members
  \<^verbatim>\<open>"humidity"\<close> and \<^verbatim>\<open>"cod"\<close>.
\<close>

theorem weather_report_roundtrip_witness:
  "status (fst (weatherHandler (exampleWorld (Inr goodConfigText) (Inr \<lparr>StatusCode = 200, Body = londonText\<rparr>))
            newResponseWriter (exampleRequest ''/weather/London'') [])) = Some 200 \<and>
   Header (fst (weatherHandler (exampleWorld (Inr goodConfigText) (Inr \<lparr>StatusCode = 200, Body = londonText\<rparr>))
            newResponseWriter (exampleRequest ''/weather/London'') [])) ''Content-Type''
     = Some ''application/json; charset=utf-8'' \<and>
   Written (fst (weatherHandler (exampleWorld (Inr goodConfigText) (Inr \<lparr>StatusCode = 200, Body = londonText\<rparr>))
            newResponseWriter (exampleRequest ''/weather/London'') []))
     = [JsonLine (JObject [(''name'', JString ''London''), (''main'', JObject [(''temp'', JNumber 288.5)])])]"
proof -
  let ?env = "exampleWorld (Inr goodConfigText) (Inr \<lparr>StatusCode = 200, Body = londonText\<rparr>)"
  let ?kvs = "[(''name'', JString ''London''),
               (''main'', JObject [(''temp'', JNumber ''288.5''), (''humidity'', JNumber ''81'')]),
               (''cod'', JNumber ''200'')]"
  have 1: "''London'' \<noteq> []" by simp
  have 2: "fst (loadApiConfig ?env ''.apiConfig'' []) = Inr \<lparr>OpenWeatherMapApiKey = ''abc123''\<rparr>"
    by (simp add: program_defs example_defs)
  have 3: "Get ?env (weatherURL ''London'' (OpenWeatherMapApiKey \<lparr>OpenWeatherMapApiKey = ''abc123''\<rparr>))
             = Inr \<lparr>StatusCode = 200, Body = londonText\<rparr>"
    by (simp add: exampleWorld_def)
  have 4: "scanNext ?env (Body \<lparr>StatusCode = 200, Body = londonText\<rparr>) = Inr (JObject ?kvs)"
    by (simp add: example_defs)
  have 5: "members ?env [''name'', ''main''] ''name'' ?kvs = [(''name'', JString ''London'')]"
    by (simp add: members_def fieldFor_def example_defs)
  have 6: "members ?env [''name'', ''main''] ''main'' ?kvs
             = [(''main'', JObject [(''temp'', JNumber ''288.5''), (''humidity'', JNumber ''81'')])]"
    by (simp add: members_def fieldFor_def example_defs)
  have 7: "members ?env [''temp''] ''temp'' [(''temp'', JNumber ''288.5''), (''humidity'', JNumber ''81'')]
             = [(''temp'', JNumber ''288.5'')]"
    by (simp add: members_def fieldFor_def example_defs)
  have 8: "ParseFloat ?env ''288.5'' = Some 288.5"
    by (simp add: exampleWorld_def)
  show ?thesis
    using weather_report_roundtrip [OF 1 2 3 4 5 6 7 8, of "exampleRequest ''/''"]
    by (simp add: exampleRequest_def)
qed

text \<open>
  The claim as it was stated fails when another member of the body selects the same
  field. The decoder matches a key that is no field name by its case folding, and a later
  member overwrites an earlier one: for the body
  \<^verbatim>\<open>{"name":"London","main":{"temp":288.5},"NAME":"Paris"}\<close>, which contains the string
  field \<^verbatim>\<open>"name"\<close> and the float field \<^verbatim>\<open>"main.temp"\<close> among another field, the handler
  emits the name \<^verbatim>\<open>"Paris"\<close>.
\<close>

theorem weather_report_other_fields_counterexample:
  "scanNext (exampleWorld (Inr goodConfigText) (Inr \<lparr>StatusCode = 200, Body = londonParisText\<rparr>)) londonParisText
     = Inr (JObject [(''name'', JString ''London''),
                     (''main'', JObject [(''temp'', JNumber ''288.5'')]),
                     (''NAME'', JString ''Paris'')]) \<and>
   Written (fst (weatherHandler (exampleWorld (Inr goodConfigText) (Inr \<lparr>StatusCode = 200, Body = londonParisText\<rparr>))
            newResponseWriter (exampleRequest ''/weather/London'') []))
     = [JsonLine (JObject [(''name'', JString ''Paris''), (''main'', JObject [(''temp'', JNumber 288.5)])])] \<and>
   Written (fst (weatherHandler (exampleWorld (Inr goodConfigText) (Inr \<lparr>StatusCode = 200, Body = londonParisText\<rparr>))
            newResponseWriter (exampleRequest ''/weather/London'') []))
     \<noteq> [JsonLine (JObject [(''name'', JString ''London''), (''main'', JObject [(''temp'', JNumber 288.5)])])]"
  by (simp add: program_defs example_defs)

subsection \<open>C2: the city in the path\<close>




subsection \<open>C3: the configuration gates the upstream call\<close>



subsection \<open>C4: every failure of the query is a 500 with the message\<close>

text \<open>
  C4, as amended. For every non-empty city, whenever \<^verbatim>\<open>query\<close> fails with an error,
  whether it comes from loading the configuration, from the outbound request or from
  decoding, the handler answers with status 500 and content type plain text, and the
  body is the message of the error followed by a newline, nothing else. The file is
  read once and at most one GET is attempted: nothing is retried.
\<close>

theorem query_failure_500_message:
  assumes "c \<noteq> []"
    and "fst (query env c tr) = Inl err"
  shows "status (fst (weatherHandler env newResponseWriter (r\<lparr>Path := ''/weather/'' @ c\<rparr>) tr)) = Some 500 \<and>
         Header (fst (weatherHandler env newResponseWriter (r\<lparr>Path := ''/weather/'' @ c\<rparr>) tr)) ''Content-Type''
           = Some ''text/plain; charset=utf-8'' \<and>
         Written (fst (weatherHandler env newResponseWriter (r\<lparr>Path := ''/weather/'' @ c\<rparr>) tr))
           = [Text (Error env err @ [CHR 0x0A])] \<and>
         length (filter isFileRead
           (drop (length tr) (snd (weatherHandler env newResponseWriter (r\<lparr>Path := ''/weather/'' @ c\<rparr>) tr)))) = 1 \<and>
         length (filter isHttpGet
           (drop (length tr) (snd (weatherHandler env newResponseWriter (r\<lparr>Path := ''/weather/'' @ c\<rparr>) tr)))) \<le> 1"
proof -
  have h: "weatherHandler env newResponseWriter (r\<lparr>Path := ''/weather/'' @ c\<rparr>) tr =
      (\<lparr>Header = [''Content-Type'' \<mapsto> ''text/plain; charset=utf-8'',
                  ''X-Content-Type-Options'' \<mapsto> ''nosniff''],
        status = Some 500,
        Written = [Text (Error env err @ [CHR 0x0A])]\<rparr>, snd (query env c tr))"
    using weatherHandler_fresh_city [OF assms(1), of env r tr] assms(2)
    by (cases "query env c tr") simp
  have "length (filter isFileRead (drop (length tr) (snd (query env c tr)))) = 1 \<and>
        length (filter isHttpGet (drop (length tr) (snd (query env c tr)))) \<le> 1"
    by (cases rule: query_trace_cases [of env c tr]) simp_all
  with h show ?thesis by simp
qed

text \<open>
  The theorem for the three kinds of failure: the file is missing, the request fails,
  the body is no JSON.
\<close>

theorem query_failure_500_message_witness:
  "Written (fst (weatherHandler (exampleWorld missingFile (Inr \<lparr>StatusCode = 200, Body = londonText\<rparr>))
                  newResponseWriter (exampleRequest ''/weather/London'') []))
     = [Text (''open .apiConfig: no such file or directory'' @ [CHR 0x0A])] \<and>
   status (fst (weatherHandler (exampleWorld missingFile (Inr \<lparr>StatusCode = 200, Body = londonText\<rparr>))
                  newResponseWriter (exampleRequest ''/weather/London'') [])) = Some 500 \<and>
   Written (fst (weatherHandler (exampleWorld (Inr goodConfigText) (Inl (UrlError ''dial tcp: no such host'')))
                  newResponseWriter (exampleRequest ''/weather/London'') []))
     = [Text (''dial tcp: no such host'' @ [CHR 0x0A])] \<and>
   status (fst (weatherHandler (exampleWorld (Inr goodConfigText) (Inl (UrlError ''dial tcp: no such host'')))
                  newResponseWriter (exampleRequest ''/weather/London'') [])) = Some 500 \<and>
   Written (fst (weatherHandler (exampleWorld (Inr goodConfigText) (Inr \<lparr>StatusCode = 200, Body = ''<html>''\<rparr>))
                  newResponseWriter (exampleRequest ''/weather/London'') []))
     = [Text (''invalid character'' @ [CHR 0x0A])] \<and>
   status (fst (weatherHandler (exampleWorld (Inr goodConfigText) (Inr \<lparr>StatusCode = 200, Body = ''<html>''\<rparr>))
                  newResponseWriter (exampleRequest ''/weather/London'') [])) = Some 500"
proof -
  let ?e1 = "exampleWorld missingFile (Inr \<lparr>StatusCode = 200, Body = londonText\<rparr>)"
  let ?e2 = "exampleWorld (Inr goodConfigText) (Inl (UrlError ''dial tcp: no such host''))"
  let ?e3 = "exampleWorld (Inr goodConfigText) (Inr \<lparr>StatusCode = 200, Body = ''<html>''\<rparr>)"
  have c: "''London'' \<noteq> []" by simp
  have 1: "fst (query ?e1 ''London'' []) = Inl (PathError ''open .apiConfig: no such file or directory'')"
    by (simp add: program_defs example_defs)
  have 2: "fst (query ?e2 ''London'' []) = Inl (UrlError ''dial tcp: no such host'')"
    by (simp add: program_defs example_defs)
  have 3: "fst (query ?e3 ''London'' []) = Inl (SyntaxError ''invalid character'')"
    by (simp add: program_defs example_defs)
  show ?thesis
    using query_failure_500_message [OF c 1, of "exampleRequest ''/''"]
          query_failure_500_message [OF c 2, of "exampleRequest ''/''"]
          query_failure_500_message [OF c 3, of "exampleRequest ''/''"]
    by (simp add: exampleRequest_def exampleWorld_def exampleError_def)
qed

text \<open>
  The claim as it was stated has the body be exactly the message of the error. The body
  is longer by the newline that \<^verbatim>\<open>http.Error\<close> prints after the message.
\<close>

theorem query_failure_body_counterexample:
  "fst (query (exampleWorld missingFile (Inr \<lparr>StatusCode = 200, Body = londonText\<rparr>)) ''London'' [])
     = Inl (PathError ''open .apiConfig: no such file or directory'') \<and>
   Error (exampleWorld missingFile (Inr \<lparr>StatusCode = 200, Body = londonText\<rparr>))
         (PathError ''open .apiConfig: no such file or directory'')
     = ''open .apiConfig: no such file or directory'' \<and>
   Written (fst (weatherHandler (exampleWorld missingFile (Inr \<lparr>StatusCode = 200, Body = londonText\<rparr>))
                  newResponseWriter (exampleRequest ''/weather/London'') []))
     \<noteq> [Text ''open .apiConfig: no such file or directory'']"
  by (simp add: program_defs example_defs)

subsection \<open>C5: hello\<close>

text \<open>
  C5. Every request to \<^verbatim>\<open>/hello\<close> is answered with status 200 and the body
  \<^verbatim>\<open>"Hello, World!\n"\<close>, whatever its method and its query parameters are: the handler,
  started on a fresh response writer, writes exactly this for every request \<open>r\<close>.
\<close>

theorem hello_always_200:
  "status (hello newResponseWriter r) = Some 200 \<and>
   Written (hello newResponseWriter r) = [Text (''Hello, World!'' @ [CHR 0x0A])] \<and>
   hello newResponseWriter (r\<lparr>Method := m, RawQuery := q\<rparr>) = hello newResponseWriter r"
  by (simp add: hello_def Write_def WriteHeader_def newResponseWriter_def)

subsection \<open>C6: loadApiConfig\<close>

text \<open>
  C6 says that \<^verbatim>\<open>loadApiConfig\<close> fails with a parse error when the content of the file
  does not match the shape \<^verbatim>\<open>{"OpenWeatherMapApiKey": "<string>"}\<close>, and the comment in
  \<^verbatim>\<open>loadApiConfig\<close> says the same of \<^verbatim>\<open>json.Unmarshal\<close>. The code does not do that: for
  the file \<^verbatim>\<open>{"apiKey":"abc123"}\<close>, which has no member \<^verbatim>\<open>OpenWeatherMapApiKey\<close>, it
  returns no error and a configuration with the empty key.
\<close>

theorem loadApiConfig_other_key_accepted:
  "ReadFile (exampleWorld (Inr otherKeyConfigText) (Inl (UrlError ''dial tcp: no such host''))) ''.apiConfig''
     = Inr otherKeyConfigText \<and>
   scan (exampleWorld (Inr otherKeyConfigText) (Inl (UrlError ''dial tcp: no such host''))) otherKeyConfigText
     = Inr (JObject [(''apiKey'', JString ''abc123'')]) \<and>
   loadApiConfig (exampleWorld (Inr otherKeyConfigText) (Inl (UrlError ''dial tcp: no such host'')))
       ''.apiConfig'' []
     = (Inr \<lparr>OpenWeatherMapApiKey = []\<rparr>, [FileRead ''.apiConfig''])"
  by (simp add: program_defs example_defs)

subsection \<open>C7: an unauthorized response\<close>

text \<open>
  C7 says that an unauthorized response of the upstream ends in status 500. The code
  never reads the status code of the response, and the body of such a response, an
  object with the members \<^verbatim>\<open>"cod"\<close> and \<^verbatim>\<open>"message"\<close>, decodes without error into the
  zero report, although the comment in \<^verbatim>\<open>query\<close> expects an error for a response that
  does not match the expected structure. The handler answers 200 with
  \<^verbatim>\<open>{"name":"","main":{"temp":0}}\<close>.
\<close>

theorem unauthorized_response_200:
  "Get (exampleWorld (Inr goodConfigText) (Inr \<lparr>StatusCode = 401, Body = unauthorizedText\<rparr>))
       ''http://api.Openweathermap.org/data/2.5/weather?q=London&appid=abc123''
     = Inr \<lparr>StatusCode = 401, Body = unauthorizedText\<rparr> \<and>
   weatherHandler (exampleWorld (Inr goodConfigText) (Inr \<lparr>StatusCode = 401, Body = unauthorizedText\<rparr>))
       newResponseWriter (exampleRequest ''/weather/London'') []
     = (\<lparr>Header = [''Content-Type'' \<mapsto> ''application/json; charset=utf-8''],
         status = Some 200,
         Written = [JsonLine (JObject [(''name'', JString []),
                                       (''main'', JObject [(''temp'', JNumber 0)])])]\<rparr>,
        [FileRead ''.apiConfig'',
         HttpGet ''http://api.Openweathermap.org/data/2.5/weather?q=London&appid=abc123'',
         BodyOpened ''http://api.Openweathermap.org/data/2.5/weather?q=London&appid=abc123'',
         BodyClosed ''http://api.Openweathermap.org/data/2.5/weather?q=London&appid=abc123''])"
  by (simp add: program_defs example_defs)

subsection \<open>C8: the city in the outbound URL\<close>

text \<open>
  C8, as amended. For every string \<open>city\<close>, once the configuration is loaded, \<^verbatim>\<open>query\<close>
  calls \<^verbatim>\<open>http.Get\<close> once, on the string that has \<open>city\<close>, byte for byte, between \<^verbatim>\<open>?q=\<close>
  and \<^verbatim>\<open>&appid=\<close>, and its result is the error of that call or the decoding of the body
  it answers: the program does not encode, trim or check the city. \<^verbatim>\<open>http.Get\<close> parses
  the string before it sends anything. When neither the city nor the key holds a
  control byte or a \<^verbatim>\<open>#\<close>, the request goes out with the city unchanged in its target.
\<close>

theorem query_city_verbatim:
  assumes "fst (loadApiConfig env ''.apiConfig'' tr) = Inr cfg"
  shows "fst (query env city tr) =
           (case Get env (''http://api.Openweathermap.org/data/2.5/weather?q='' @ city @ ''&appid=''
                            @ OpenWeatherMapApiKey cfg) of
              Inl err \<Rightarrow> Inl err
            | Inr resp \<Rightarrow> Decode_weatherData env (Body resp)) \<and>
         take 2 (drop (length tr) (snd (query env city tr))) =
           [FileRead ''.apiConfig'',
            HttpGet (''http://api.Openweathermap.org/data/2.5/weather?q='' @ city @ ''&appid=''
                       @ OpenWeatherMapApiKey cfg)] \<and>
         length (filter isHttpGet (drop (length tr) (snd (query env city tr)))) = 1 \<and>
         (Get_sends env send \<and> \<not> list_ex isCTL (city @ OpenWeatherMapApiKey cfg) \<and>
          CHR ''#'' \<notin> set (city @ OpenWeatherMapApiKey cfg) \<longrightarrow>
            Get env (''http://api.Openweathermap.org/data/2.5/weather?q='' @ city @ ''&appid=''
                       @ OpenWeatherMapApiKey cfg)
              = send (''/data/2.5/weather?q='' @ city @ ''&appid='' @ OpenWeatherMapApiKey cfg))"
proof -
  let ?key = "OpenWeatherMapApiKey cfg"
  let ?url = "''http://api.Openweathermap.org/data/2.5/weather?q='' @ city @ ''&appid='' @ ?key"
  have url: "weatherURL city ?key = ?url"
    by (simp add: weatherURL_def)
  have q: "fst (query env city tr) =
             (case Get env ?url of Inl err \<Rightarrow> Inl err | Inr resp \<Rightarrow> Decode_weatherData env (Body resp)) \<and>
           take 2 (drop (length tr) (snd (query env city tr))) = [FileRead ''.apiConfig'', HttpGet ?url] \<and>
           length (filter isHttpGet (drop (length tr) (snd (query env city tr)))) = 1"
  proof (cases "Get env (weatherURL city ?key)")
    case (Inl err)
    from query_get_error [OF assms this] Inl show ?thesis by (simp add: url)
  next
    case (Inr resp)
    from query_response [OF assms this] Inr show ?thesis by (simp add: url)
  qed
  have "Get env ?url = send (''/data/2.5/weather?q='' @ city @ ''&appid='' @ ?key)"
    if sends: "Get_sends env send" and ctl: "\<not> list_ex isCTL (city @ ?key)"
      and hash: "CHR ''#'' \<notin> set (city @ ?key)"
  proof -
    from ctl have "\<not> list_ex isCTL (city @ ''&appid='' @ ?key)"
      by (simp add: isCTL_def)
    moreover from hash have "CHR ''#'' \<notin> set (city @ ''&appid='' @ ?key)"
      by simp
    ultimately have "RequestURI (city @ ''&appid='' @ ?key)
        = Some (''/data/2.5/weather?q='' @ city @ ''&appid='' @ ?key)"
      by (rule RequestURI_plain)
    with sends [unfolded Get_sends_def, rule_format, of "city @ ''&appid='' @ ?key"]
    show ?thesis by (simp add: weatherURLprefix_def)
  qed
  with q show ?thesis by blast
qed

text \<open>The theorem at the city \<^verbatim>\<open>New York\<close>, in the world that echoes the request target.\<close>

theorem query_city_verbatim_witness:
  "fst (query echoWorld ''New York'' []) =
     (case Get echoWorld ''http://api.Openweathermap.org/data/2.5/weather?q=New York&appid=abc123'' of
        Inl err \<Rightarrow> Inl err
      | Inr resp \<Rightarrow> Decode_weatherData echoWorld (Body resp)) \<and>
   snd (query echoWorld ''New York'' []) =
     [FileRead ''.apiConfig'',
      HttpGet ''http://api.Openweathermap.org/data/2.5/weather?q=New York&appid=abc123'',
      BodyOpened ''http://api.Openweathermap.org/data/2.5/weather?q=New York&appid=abc123'',
      BodyClosed ''http://api.Openweathermap.org/data/2.5/weather?q=New York&appid=abc123''] \<and>
   Get echoWorld ''http://api.Openweathermap.org/data/2.5/weather?q=New York&appid=abc123''
     = Inr \<lparr>StatusCode = 200, Body = ''/data/2.5/weather?q=New York&appid=abc123''\<rparr>"
proof -
  have 1: "fst (loadApiConfig echoWorld ''.apiConfig'' []) = Inr \<lparr>OpenWeatherMapApiKey = ''abc123''\<rparr>"
    by (simp add: echoWorld_def program_defs example_defs)
  have 2: "Get_sends echoWorld echo \<and>
           \<not> list_ex isCTL (''New York'' @ OpenWeatherMapApiKey \<lparr>OpenWeatherMapApiKey = ''abc123''\<rparr>) \<and>
           CHR ''#'' \<notin> set (''New York'' @ OpenWeatherMapApiKey \<lparr>OpenWeatherMapApiKey = ''abc123''\<rparr>)"
    by (simp add: Get_sends_echoWorld isCTL_def)
  have 3: "snd (query echoWorld ''New York'' []) =
     [FileRead ''.apiConfig'',
      HttpGet ''http://api.Openweathermap.org/data/2.5/weather?q=New York&appid=abc123'',
      BodyOpened ''http://api.Openweathermap.org/data/2.5/weather?q=New York&appid=abc123'',
      BodyClosed ''http://api.Openweathermap.org/data/2.5/weather?q=New York&appid=abc123'']"
    by (simp add: echoWorld_def RequestURI_def isCTL_def weatherURLprefix_def echo_def
          program_defs example_defs)
  note inst = query_city_verbatim [OF 1, of "''New York''" echo]
  from inst [THEN conjunct1] inst [THEN conjunct2, THEN conjunct2, THEN conjunct2, rule_format, OF 2] 3
  show ?thesis
    by (simp add: echo_def)
qed

text \<open>
  The claim as it was stated has every string accepted and forwarded unmodified. For
  the city \<^verbatim>\<open>a#b\<close> the string handed to \<^verbatim>\<open>http.Get\<close> holds the city, but the request that
  goes out has the target \<^verbatim>\<open>/data/2.5/weather?q=a\<close>: the rest of the city and the key are
  a fragment and are not sent. For a city with a line feed, and for the city \<^verbatim>\<open>a#%zz\<close>,
  the URL is refused and nothing is sent.
\<close>

theorem query_city_not_forwarded_counterexample:
  "snd (query echoWorld ''a#b'' []) =
     [FileRead ''.apiConfig'',
      HttpGet ''http://api.Openweathermap.org/data/2.5/weather?q=a#b&appid=abc123'',
      BodyOpened ''http://api.Openweathermap.org/data/2.5/weather?q=a#b&appid=abc123'',
      BodyClosed ''http://api.Openweathermap.org/data/2.5/weather?q=a#b&appid=abc123''] \<and>
   Get echoWorld ''http://api.Openweathermap.org/data/2.5/weather?q=a#b&appid=abc123''
     = Inr \<lparr>StatusCode = 200, Body = ''/data/2.5/weather?q=a''\<rparr> \<and>
   RequestURI (''a#b'' @ ''&appid='' @ ''abc123'') = Some ''/data/2.5/weather?q=a'' \<and>
   RequestURI ([CHR ''a'', CHR 0x0A, CHR ''b''] @ ''&appid='' @ ''abc123'') = None \<and>
   RequestURI (''a#%zz'' @ ''&appid='' @ ''abc123'') = None \<and>
   query echoWorld [CHR ''a'', CHR 0x0A, CHR ''b''] [] =
     (Inl (UrlError ''parse''),
      [FileRead ''.apiConfig'',
       HttpGet (''http://api.Openweathermap.org/data/2.5/weather?q='' @ [CHR ''a'', CHR 0x0A, CHR ''b'']
                  @ ''&appid=abc123'')])"
  by (simp add: echoWorld_def RequestURI_def isCTL_def ishex_def weatherURLprefix_def echo_def
        program_defs example_defs)

subsection \<open>C9: the response body is closed\<close>

text \<open>
  C9. Whenever \<^verbatim>\<open>query\<close> obtains a response, its result is the result of the decoding,
  success or failure, and in both cases the body that was opened is closed as the last
  event before \<^verbatim>\<open>query\<close> returns. No more bodies are open after the call than before
  it, and the same holds after any number of calls in a row.
\<close>

theorem query_closes_body:
  assumes "fst (loadApiConfig env ''.apiConfig'' tr) = Inr cfg"
    and "Get env (weatherURL city (OpenWeatherMapApiKey cfg)) = Inr resp"
  shows "fst (query env city tr) = Decode_weatherData env (Body resp) \<and>
         snd (query env city tr) =
           tr @ [FileRead ''.apiConfig'',
                 HttpGet (weatherURL city (OpenWeatherMapApiKey cfg)),
                 BodyOpened (weatherURL city (OpenWeatherMapApiKey cfg)),
                 BodyClosed (weatherURL city (OpenWeatherMapApiKey cfg))] \<and>
         openStreams (snd (query env city tr)) = openStreams tr \<and>
         openStreams (queries env cities tr) = openStreams tr"
  using query_response [OF assms] by (simp add: queries_openStreams openStreams_append)

text \<open>The theorem for a body that fails to decode, and for three such calls in a row.\<close>

theorem query_closes_body_witness:
  "fst (query (exampleWorld (Inr goodConfigText) (Inr \<lparr>StatusCode = 200, Body = ''<html>''\<rparr>)) ''London'' [])
     = Inl (SyntaxError ''invalid character'') \<and>
   snd (query (exampleWorld (Inr goodConfigText) (Inr \<lparr>StatusCode = 200, Body = ''<html>''\<rparr>)) ''London'' [])
     = [FileRead ''.apiConfig'',
        HttpGet ''http://api.Openweathermap.org/data/2.5/weather?q=London&appid=abc123'',
        BodyOpened ''http://api.Openweathermap.org/data/2.5/weather?q=London&appid=abc123'',
        BodyClosed ''http://api.Openweathermap.org/data/2.5/weather?q=London&appid=abc123''] \<and>
   openStreams (queries (exampleWorld (Inr goodConfigText) (Inr \<lparr>StatusCode = 200, Body = ''<html>''\<rparr>))
                  [''London'', ''London'', ''London''] []) = []"
proof -
  let ?env = "exampleWorld (Inr goodConfigText) (Inr \<lparr>StatusCode = 200, Body = ''<html>''\<rparr>)"
  have 1: "fst (loadApiConfig ?env ''.apiConfig'' []) = Inr \<lparr>OpenWeatherMapApiKey = ''abc123''\<rparr>"
    by (simp add: program_defs example_defs)
  have 2: "Get ?env (weatherURL ''London'' (OpenWeatherMapApiKey \<lparr>OpenWeatherMapApiKey = ''abc123''\<rparr>))
             = Inr \<lparr>StatusCode = 200, Body = ''<html>''\<rparr>"
    by (simp add: exampleWorld_def)
  have 3: "Decode_weatherData ?env ''<html>'' = Inl (SyntaxError ''invalid character'')"
    by (simp add: program_defs example_defs)
  have 4: "openStreams [] = []"
    by (simp add: openStreams_def)
  show ?thesis
    using query_closes_body [OF 1 2, of "[''London'', ''London'', ''London'']"] 3 4
    by (simp add: weatherURL_def del: queries.simps)
qed

subsection \<open>C10: slashes in the city\<close>





end
